theory Spec2Isabelle
  imports Main
begin

section \<open>Values exchanged with the outside world\<close>

text \<open>
  Request bodies, upstream responses and the fields the handlers pass through unchanged
  are JSON. Numbers are kept as integers; the handlers never compute with them.
\<close>

datatype json =
    JNull
  | JBool bool
  | JNum int
  | JStr string
  | JArr "json list"
  | JObj "(string \<times> json) list"

text \<open>JavaScript truthiness of a JSON value, as \<^verbatim>\<open>if (data.errors)\<close> reads it.\<close>

fun truthy :: "json \<Rightarrow> bool" where
  "truthy JNull = False"
| "truthy (JBool b) = b"
| "truthy (JNum n) = (n \<noteq> 0)"
| "truthy (JStr s) = (s \<noteq> [])"
| "truthy (JArr xs) = True"
| "truthy (JObj fs) = True"

section \<open>Shop Registry\<close>

record shop =
  name :: string
  domain :: string
  token :: string

section \<open>Outbound HTTP calls and the runtime\<close>

datatype http_method = POST | PUT

record http_request =
  verb :: http_method
  url :: string
  payload :: json
  headers :: "(string \<times> string) list"

definition shop_headers :: "shop \<Rightarrow> (string \<times> string) list" where
  "shop_headers s =
     [(''X-Shopify-Access-Token'', token s), (''Content-Type'', ''application/json'')]"

text \<open>
  A variant node as the GraphQL query of \<^verbatim>\<open>/fetch\<close> selects it. The upstream answer is
  typed by that query: \<^verbatim>\<open>data.errors\<close> (absent when the query succeeded) and the nodes of
  \<^verbatim>\<open>data.data.productVariants.edges\<close>.
\<close>

record variant =
  var_id :: string
  var_sku :: json
  var_price :: json
  var_inventoryQuantity :: json
  var_product :: json
  var_image :: json

record graphql_body =
  errors :: "json option"
  edges :: "variant list"

text \<open>
  \<^verbatim>\<open>axios.post\<close> either resolves with the response data or rejects with an error. It
  rejects when no response arrives and also when the upstream answers with a status
  outside 2xx; the error then carries that answer's body (\<^verbatim>\<open>err.response.data\<close>, here
  \<open>Some\<close>) besides \<^verbatim>\<open>err.message\<close>.
\<close>

datatype post_outcome = PostResolved graphql_body | PostRejected "json option" string

text \<open>
  \<^verbatim>\<open>axios.put\<close> resolves (the update handler ignores the response) or rejects. A rejection
  carries \<^verbatim>\<open>err.message\<close> and, when the shop answered, the body of its answer
  (\<^verbatim>\<open>err.response.data\<close>, here \<open>Some\<close>): any JSON value, \<^verbatim>\<open>null\<close> included. \<open>None\<close> means
  that no response was received (\<^verbatim>\<open>err.response\<close> is \<^verbatim>\<open>undefined\<close>).
\<close>

datatype put_outcome = PutResolved | PutRejected "json option" string

text \<open>An exception thrown by the handler's own code, with its message.\<close>

datatype exn = TypeError string

text \<open>
  The runtime the handlers run in: the outcome of each outbound call, which may depend on
  the request and on the moment it is issued (the number of effects logged before it), and
  the built-in \<^verbatim>\<open>JSON.stringify\<close> on defined values, and the text a template literal
  prints for a defined value (\<^verbatim>\<open>String(v)\<close>).
\<close>

record runtime =
  axios_post :: "nat \<Rightarrow> http_request \<Rightarrow> post_outcome"
  axios_put :: "nat \<Rightarrow> http_request \<Rightarrow> put_outcome"
  JSON_stringify :: "json \<Rightarrow> string"
  template_text :: "json \<Rightarrow> string"

section \<open>Snapshot Store and effect log\<close>

text \<open>
  \<^verbatim>\<open>memorySnapshot\<close> is a plain JavaScript object used as a dictionary from SKU to the
  entry last written for it. Such an object has its own properties and a prototype.
  The prototype is \<^verbatim>\<open>Object.prototype\<close> (\<open>proto = None\<close>) until a value is assigned to the
  key \<^verbatim>\<open>__proto__\<close>, which replaces the prototype instead of creating a property.
\<close>

record 'e js_object =
  own :: "string \<rightharpoonup> 'e"
  proto :: "'e option"

definition empty_object :: "'e js_object" where
  "empty_object = \<lparr>own = Map.empty, proto = None\<rparr>"

text \<open>The properties every object inherits from \<^verbatim>\<open>Object.prototype\<close>.\<close>

definition Object_prototype_names :: "string list" where
  "Object_prototype_names =
     [''constructor'', ''__defineGetter__'', ''__defineSetter__'', ''hasOwnProperty'',
      ''__lookupGetter__'', ''__lookupSetter__'', ''isPrototypeOf'', ''propertyIsEnumerable'',
      ''toString'', ''valueOf'', ''__proto__'', ''toLocaleString'']"

text \<open>
  What \<^verbatim>\<open>memorySnapshot[key]\<close> evaluates to: an entry that was stored, a value inherited
  from \<^verbatim>\<open>Object.prototype\<close> (a function, or that prototype itself), a field of an entry
  that has become the prototype, or \<^verbatim>\<open>undefined\<close>.
\<close>

datatype 'e js_value = Undefined | Stored 'e | Builtin | Field json

text \<open>\<^verbatim>\<open>obj[key]\<close>; \<open>props\<close> gives the fields of an entry by name.\<close>

definition get_property :: "('e \<Rightarrow> string \<Rightarrow> json option) \<Rightarrow> 'e js_object \<Rightarrow> string \<Rightarrow> 'e js_value" where
  "get_property props obj key =
     (if key = ''__proto__'' then
        (case proto obj of None \<Rightarrow> Builtin | Some p \<Rightarrow> Stored p)
      else
        (case own obj key of
           Some e \<Rightarrow> Stored e
         | None \<Rightarrow>
             (case (case proto obj of None \<Rightarrow> None | Some p \<Rightarrow> props p key) of
                Some v \<Rightarrow> Field v
              | None \<Rightarrow> if key \<in> set Object_prototype_names then Builtin else Undefined)))"

text \<open>\<^verbatim>\<open>obj[key] = e\<close>, for an entry \<open>e\<close> (an object).\<close>

definition set_property :: "'e js_object \<Rightarrow> string \<Rightarrow> 'e \<Rightarrow> 'e js_object" where
  "set_property obj key e =
     (if key = ''__proto__'' then obj\<lparr>proto := Some e\<rparr>
      else obj\<lparr>own := (own obj)(key \<mapsto> e)\<rparr>)"

fun js_truthy :: "'e js_value \<Rightarrow> bool" where
  "js_truthy Undefined = False"
| "js_truthy (Stored e) = True"
| "js_truthy Builtin = True"
| "js_truthy (Field v) = truthy v"

text \<open>
  Every access to the store and every outbound call is logged, in order, so that what a
  handler did not do can be stated. One request is modelled at a time, from its first
  statement to its response.
\<close>

datatype event =
    SnapshotRead string
  | SnapshotWrite string
  | SnapshotReset
  | Http http_request

record 'e state =
  memorySnapshot :: "'e js_object"
  events :: "event list"

definition log :: "event \<Rightarrow> 'e state \<Rightarrow> 'e state" where
  "log e st = st\<lparr>events := events st @ [e]\<rparr>"

definition now :: "'e state \<Rightarrow> nat" where
  "now st = length (events st)"

definition is_http :: "event \<Rightarrow> bool" where
  "is_http e = (case e of Http r \<Rightarrow> True | _ \<Rightarrow> False)"

definition is_write :: "event \<Rightarrow> bool" where
  "is_write e = (case e of SnapshotWrite k \<Rightarrow> True | SnapshotReset \<Rightarrow> True | _ \<Rightarrow> False)"

section \<open>Responses\<close>

record update_result =
  res_sku :: string
  res_rowNumber :: json
  res_shops :: "string list option"
  res_shop :: "string option"
  res_message :: string

datatype 'd body =
    ErrorBody json "string option"
  | FetchBody string 'd
  | UpdateBody string "update_result list"

record 'd response =
  status :: nat
  body :: "'d body"

section \<open>The fetch handler (second variant)\<close>

text \<open>\<^verbatim>\<open>s.split(c)\<close> for a one-character separator: never empty.\<close>

fun split :: "char \<Rightarrow> string \<Rightarrow> string list" where
  "split c [] = [[]]"
| "split c (x # xs) =
     (if x = c then [] # split c xs
      else (case split c xs of [] \<Rightarrow> [[x]] | s # ss \<Rightarrow> (x # s) # ss))"

text \<open>\<^verbatim>\<open>variant.id.split('/').pop()\<close>\<close>

definition numeric_id_of :: "string \<Rightarrow> string" where
  "numeric_id_of gid = last (split CHR ''/'' gid)"

record snapshot_entry = variant +
  numericVariantId :: string

text \<open>\<^verbatim>\<open>{ ...variant, numericVariantId }\<close>\<close>

definition with_numeric_id :: "variant \<Rightarrow> string \<Rightarrow> snapshot_entry" where
  "with_numeric_id v n = variant.extend v (snapshot_entry.fields n)"

text \<open>The properties of a stored entry, by their JavaScript names.\<close>

definition entry_props :: "snapshot_entry \<Rightarrow> string \<Rightarrow> json option" where
  "entry_props e =
     map_of [(''id'', JStr (var_id e)),
             (''sku'', var_sku e),
             (''price'', var_price e),
             (''inventoryQuantity'', var_inventoryQuantity e),
             (''product'', var_product e),
             (''image'', var_image e),
             (''numericVariantId'', JStr (numericVariantId e))]"

text \<open>The query text of the template literal, its layout whitespace collapsed.\<close>

definition graphql_query :: "string \<Rightarrow> string" where
  "graphql_query sku =
     ''{ productVariants(first: 1, query: '' @ [CHR 0x22] @ ''sku:'' @ sku @ [CHR 0x22] @
     '') { edges { node { id sku price inventoryQuantity product { title } image { src } } } } }''"

definition graphql_request :: "shop \<Rightarrow> string \<Rightarrow> http_request" where
  "graphql_request rep sku =
     \<lparr>verb = POST,
      url = ''https://'' @ domain rep @ ''/admin/api/2023-04/graphql.json'',
      payload = JObj [(''query'', JStr (graphql_query sku))],
      headers = shop_headers rep\<rparr>"

text \<open>\<^verbatim>\<open>data.errors\<close> when it is truthy.\<close>

definition upstream_errors :: "graphql_body \<Rightarrow> json option" where
  "upstream_errors data =
     (case errors data of None \<Rightarrow> None | Some e \<Rightarrow> if truthy e then Some e else None)"

text \<open>
  \<^verbatim>\<open>req.query.sku\<close> is absent or a string; \<^verbatim>\<open>!sku\<close> holds when it is absent or empty.
\<close>

definition fetch :: "shop \<Rightarrow> runtime \<Rightarrow> string option \<Rightarrow> snapshot_entry state
    \<Rightarrow> snapshot_entry response \<times> snapshot_entry state" where
  "fetch REPRESENTATIVE_SHOP rt sku_param st =
     (case sku_param of
        None \<Rightarrow>
          (\<lparr>status = 400, body = ErrorBody (JStr ''Missing 'sku' query parameter.'') None\<rparr>, st)
      | Some sku \<Rightarrow>
          if sku = [] then
            (\<lparr>status = 400, body = ErrorBody (JStr ''Missing 'sku' query parameter.'') None\<rparr>, st)
          else
            let req = graphql_request REPRESENTATIVE_SHOP sku;
                st1 = log (Http req) st
            in (case axios_post rt (now st) req of
                  PostRejected resp msg \<Rightarrow>
                    (\<lparr>status = 500, body = ErrorBody (JStr ''Fetch failed'') (Some msg)\<rparr>, st1)
                | PostResolved data \<Rightarrow>
                    (case upstream_errors data of
                       Some errs \<Rightarrow> (\<lparr>status = 500, body = ErrorBody errs None\<rparr>, st1)
                     | None \<Rightarrow>
                         (case edges data of
                            [] \<Rightarrow>
                              (\<lparr>status = 404, body = ErrorBody (JStr ''SKU not found'') None\<rparr>, st1)
                          | v # rest \<Rightarrow>
                              let numericVariantId = numeric_id_of (var_id v);
                                  entry = with_numeric_id v numericVariantId;
                                  st2 = log (SnapshotWrite sku)
                                          (st1\<lparr>memorySnapshot :=
                                                 set_property (memorySnapshot st1) sku entry\<rparr>)
                              in (\<lparr>status = 200,
                                   body = FetchBody ''Fetch completed successfully.'' entry\<rparr>, st2)))))"

section \<open>The update handler (second variant)\<close>

text \<open>
  The request body: \<^verbatim>\<open>updatedRows\<close> and \<^verbatim>\<open>selectedShops\<close> are each absent (\<^verbatim>\<open>None\<close>) or an
  array, of rows \<^verbatim>\<open>{ sku, changes, rowNumber }\<close> and of shop names.
\<close>

record updated_row =
  sku :: string
  changes :: json
  rowNumber :: json

record update_body =
  updatedRows :: "updated_row list option"
  selectedShops :: "string list option"

definition variant_url :: "shop \<Rightarrow> string \<Rightarrow> string" where
  "variant_url s ident =
     ''https://'' @ domain s @ ''/admin/api/2023-04/variants/'' @ ident @ ''.json''"

definition put_request :: "shop \<Rightarrow> string \<Rightarrow> json \<Rightarrow> http_request" where
  "put_request s ident chg =
     \<lparr>verb = PUT,
      url = variant_url s ident,
      payload = JObj [(''variant'', chg)],
      headers = shop_headers s\<rparr>"

text \<open>
  \<^verbatim>\<open>data.errors\<close> for the body \<open>data\<close> of an error answer: reading a property of \<^verbatim>\<open>null\<close>
  throws; a value that is not an object has no such property.
\<close>

definition read_errors :: "json \<Rightarrow> exn + json option" where
  "read_errors data =
     (case data of
        JNull \<Rightarrow> Inl (TypeError ''Cannot read properties of null (reading 'errors')'')
      | JObj fs \<Rightarrow> Inr (map_of fs ''errors'')
      | _ \<Rightarrow> Inr None)"

text \<open>
  \<^verbatim>\<open>err.response ? JSON.stringify(err.response.data.errors) : err.message\<close>, as the template
  literal prints it: \<^verbatim>\<open>JSON.stringify(undefined)\<close> is \<^verbatim>\<open>undefined\<close>. The expression stands
  inside the \<^verbatim>\<open>catch\<close> block, so what it throws is not caught there.
\<close>

definition failure_detail :: "runtime \<Rightarrow> json option \<Rightarrow> string \<Rightarrow> exn + string" where
  "failure_detail rt resp msg =
     (case resp of
        None \<Rightarrow> Inr msg
      | Some data \<Rightarrow>
          (case read_errors data of
             Inl thrown \<Rightarrow> Inl thrown
           | Inr None \<Rightarrow> Inr ''undefined''
           | Inr (Some e) \<Rightarrow> Inr (JSON_stringify rt e)))"

definition skipped :: "updated_row \<Rightarrow> string list option \<Rightarrow> update_result" where
  "skipped row shops =
     \<lparr>res_sku = sku row, res_rowNumber = rowNumber row, res_shops = shops, res_shop = None,
      res_message = ''SKU not found in snapshot, skipping update.''\<rparr>"

definition shop_result :: "updated_row \<Rightarrow> string \<Rightarrow> string \<Rightarrow> update_result" where
  "shop_result row shopName msg =
     \<lparr>res_sku = sku row, res_rowNumber = rowNumber row, res_shops = None,
      res_shop = Some shopName, res_message = msg\<rparr>"

text \<open>
  The loops either go on with the results pushed so far and the state reached (\<open>Inr\<close>), or
  are abandoned by an exception, which carries the state reached when it was thrown
  (\<open>Inl\<close>).
\<close>

type_synonym 'e progress = "exn \<times> 'e state + update_result list \<times> 'e state"

text \<open>
  The \<^verbatim>\<open>try\<close>/\<^verbatim>\<open>catch\<close> around \<^verbatim>\<open>axios.put\<close>: one call, and one result pushed unless building
  the failure message throws.
\<close>

definition put_variant :: "runtime \<Rightarrow> updated_row \<Rightarrow> string \<Rightarrow> http_request
    \<Rightarrow> update_result list \<times> 'e state \<Rightarrow> 'e progress" where
  "put_variant rt row shopName req acc =
     (case acc of (updateResults, st) \<Rightarrow>
        (case axios_put rt (now st) req of
           PutResolved \<Rightarrow>
             Inr (updateResults @ [shop_result row shopName ''Update successful''],
                  log (Http req) st)
         | PutRejected resp msg \<Rightarrow>
             (case failure_detail rt resp msg of
                Inl thrown \<Rightarrow> Inl (thrown, log (Http req) st)
              | Inr detail \<Rightarrow>
                  Inr (updateResults @ [shop_result row shopName (''Update failed: '' @ detail)],
                       log (Http req) st))))"

text \<open>The body of the loop over \<^verbatim>\<open>selectedShops\<close>.\<close>

definition update_shop :: "shop list \<Rightarrow> runtime \<Rightarrow> updated_row \<Rightarrow> string \<Rightarrow> string
    \<Rightarrow> update_result list \<times> 'e state \<Rightarrow> 'e progress" where
  "update_shop SHOPIFY_SHOPS rt row numericId shopName acc =
     (case find (\<lambda>s. name s = shopName) SHOPIFY_SHOPS of
        None \<Rightarrow> Inr acc
      | Some s \<Rightarrow> put_variant rt row shopName (put_request s numericId (changes row)) acc)"

fun update_shops :: "shop list \<Rightarrow> runtime \<Rightarrow> updated_row \<Rightarrow> string \<Rightarrow> string list
    \<Rightarrow> update_result list \<times> 'e state \<Rightarrow> 'e progress" where
  "update_shops SHOPIFY_SHOPS rt row numericId [] acc = Inr acc"
| "update_shops SHOPIFY_SHOPS rt row numericId (shopName # rest) acc =
     (case update_shop SHOPIFY_SHOPS rt row numericId shopName acc of
        Inl thrown \<Rightarrow> Inl thrown
      | Inr acc' \<Rightarrow> update_shops SHOPIFY_SHOPS rt row numericId rest acc')"

text \<open>
  \<^verbatim>\<open>fetched.numericVariantId\<close> as the URL template prints it, for a truthy \<open>fetched\<close>: the
  identifier of a stored entry; \<^verbatim>\<open>undefined\<close> for a value that has no such property.
\<close>

definition numericVariantId_of :: "runtime \<Rightarrow> snapshot_entry js_value \<Rightarrow> string" where
  "numericVariantId_of rt fetched =
     (case fetched of
        Stored e \<Rightarrow> numericVariantId e
      | Field (JObj fs) \<Rightarrow>
          (case map_of fs ''numericVariantId'' of
             None \<Rightarrow> ''undefined''
           | Some v \<Rightarrow> template_text rt v)
      | _ \<Rightarrow> ''undefined'')"

text \<open>The body of the loop over \<^verbatim>\<open>updatedRows\<close>.\<close>

definition update_row :: "shop list \<Rightarrow> runtime \<Rightarrow> string list \<Rightarrow> updated_row
    \<Rightarrow> update_result list \<times> snapshot_entry state \<Rightarrow> snapshot_entry progress" where
  "update_row SHOPIFY_SHOPS rt shops row acc =
     (case acc of (updateResults, st) \<Rightarrow>
        (let fetched = get_property entry_props (memorySnapshot st) (sku row);
             st1 = log (SnapshotRead (sku row)) st
         in if \<not> js_truthy fetched then
              Inr (updateResults @ [skipped row (Some shops)], st1)
            else
              update_shops SHOPIFY_SHOPS rt row (numericVariantId_of rt fetched) shops
                (updateResults, st1)))"

fun update_rows :: "shop list \<Rightarrow> runtime \<Rightarrow> string list \<Rightarrow> updated_row list
    \<Rightarrow> update_result list \<times> snapshot_entry state \<Rightarrow> snapshot_entry progress" where
  "update_rows SHOPIFY_SHOPS rt shops [] acc = Inr acc"
| "update_rows SHOPIFY_SHOPS rt shops (row # rest) acc =
     (case update_row SHOPIFY_SHOPS rt shops row acc of
        Inl thrown \<Rightarrow> Inl thrown
      | Inr acc' \<Rightarrow> update_rows SHOPIFY_SHOPS rt shops rest acc')"

text \<open>
  The handler. \<^verbatim>\<open>req.body\<close> is the parsed JSON body, or \<^verbatim>\<open>undefined\<close> (\<open>None\<close>) where the
  framework leaves it unset for a request without one; destructuring \<^verbatim>\<open>undefined\<close> throws.
  \<^verbatim>\<open>!updatedRows || !selectedShops\<close> holds when either field is absent; an empty array is
  truthy. Whatever is thrown inside the outer \<^verbatim>\<open>try\<close> is answered by the outer \<^verbatim>\<open>catch\<close>:
  500 with the exception's message, and the results collected so far are dropped.
\<close>

definition update :: "shop list \<Rightarrow> runtime \<Rightarrow> update_body option \<Rightarrow> snapshot_entry state
    \<Rightarrow> snapshot_entry response \<times> snapshot_entry state" where
  "update SHOPIFY_SHOPS rt req_body st =
     (case (case req_body of
              None \<Rightarrow>
                Inl (TypeError
                       ''Cannot destructure property 'updatedRows' of 'req.body' as it is undefined.'',
                     st)
            | Some b \<Rightarrow>
                (case updatedRows b of
                   None \<Rightarrow> Inr None
                 | Some rows \<Rightarrow>
                     (case selectedShops b of
                        None \<Rightarrow> Inr None
                      | Some shops \<Rightarrow>
                          (case update_rows SHOPIFY_SHOPS rt shops rows ([], st) of
                             Inl thrown \<Rightarrow> Inl thrown
                           | Inr done \<Rightarrow> Inr (Some done))))) of
        Inl (TypeError message, st') \<Rightarrow>
          (\<lparr>status = 500, body = ErrorBody (JStr ''Update failed'') (Some message)\<rparr>, st')
      | Inr None \<Rightarrow>
          (\<lparr>status = 400,
            body = ErrorBody (JStr ''Missing 'updatedRows' or 'selectedShops' in request body.'') None\<rparr>,
           st)
      | Inr (Some (updateResults, st')) \<Rightarrow>
          (\<lparr>status = 200, body = UpdateBody ''Update process completed.'' updateResults\<rparr>, st'))"

section \<open>The first variant of the two handlers\<close>

text \<open>
  The file holds an earlier variant of both handlers, with its own \<^verbatim>\<open>memorySnapshot\<close>:
  \<^verbatim>\<open>/fetch\<close> ignores the request and stores hardcoded sample rows; \<^verbatim>\<open>/update\<close> checks
  nothing and puts the SKU into the URL.
\<close>

definition sampleData :: "json list" where
  "sampleData =
     [JObj [(''sku'', JStr ''SKU123''),
            (''title'', JStr ''Sample Product''),
            (''status'', JStr ''active''),
            (''description'', JStr ''A sample product description''),
            (''images'', JStr ''http://example.com/image1.jpg,http://example.com/image2.jpg''),
            (''price'', JStr ''29.99''),
            (''type'', JStr ''T-Shirt''),
            (''vendor'', JStr ''VendorName''),
            (''collections'', JStr ''Summer,Sale''),
            (''tags'', JStr ''new,hot'')]]"

text \<open>The properties of a stored sample row, by name.\<close>

definition json_props :: "json \<Rightarrow> string \<Rightarrow> json option" where
  "json_props v = (case v of JObj fs \<Rightarrow> map_of fs | _ \<Rightarrow> Map.empty)"

text \<open>\<^verbatim>\<open>row.sku\<close> as a property key; every sample row has a string there.\<close>

definition row_sku :: "json \<Rightarrow> string" where
  "row_sku row =
     (case row of
        JObj fs \<Rightarrow> (case map_of fs ''sku'' of Some (JStr k) \<Rightarrow> k | _ \<Rightarrow> ''undefined'')
      | _ \<Rightarrow> ''undefined'')"

text \<open>\<^verbatim>\<open>sampleData.forEach((row) => { memorySnapshot[row.sku] = row; })\<close>\<close>

fun store_rows :: "json list \<Rightarrow> json state \<Rightarrow> json state" where
  "store_rows [] st = st"
| "store_rows (row # rest) st =
     store_rows rest
       (log (SnapshotWrite (row_sku row))
          (st\<lparr>memorySnapshot := set_property (memorySnapshot st) (row_sku row) row\<rparr>))"

definition fetch_v1 :: "string option \<Rightarrow> json state \<Rightarrow> json response \<times> json state" where
  "fetch_v1 sku_param st =
     (let st1 = log SnapshotReset (st\<lparr>memorySnapshot := empty_object\<rparr>);
          st2 = store_rows sampleData st1
      in (\<lparr>status = 200,
           body = FetchBody ''Fetch completed successfully.'' (JArr sampleData)\<rparr>, st2))"

text \<open>
  The loops of the first variant. \<^verbatim>\<open>for (... of undefined)\<close> throws a \<^verbatim>\<open>TypeError\<close>, and so
  does the failure message of a call rejected with a \<^verbatim>\<open>null\<close> body, as in the second
  variant.
\<close>

definition update_shop_v1 :: "shop list \<Rightarrow> runtime \<Rightarrow> updated_row \<Rightarrow> string
    \<Rightarrow> update_result list \<times> 'e state \<Rightarrow> 'e progress" where
  "update_shop_v1 SHOPIFY_SHOPS rt row shopName acc =
     (case find (\<lambda>s. name s = shopName) SHOPIFY_SHOPS of
        None \<Rightarrow> Inr acc
      | Some s \<Rightarrow> put_variant rt row shopName (put_request s (sku row) (changes row)) acc)"

fun update_shops_v1 :: "shop list \<Rightarrow> runtime \<Rightarrow> updated_row \<Rightarrow> string list
    \<Rightarrow> update_result list \<times> 'e state \<Rightarrow> 'e progress" where
  "update_shops_v1 SHOPIFY_SHOPS rt row [] acc = Inr acc"
| "update_shops_v1 SHOPIFY_SHOPS rt row (shopName # rest) acc =
     (case update_shop_v1 SHOPIFY_SHOPS rt row shopName acc of
        Inl thrown \<Rightarrow> Inl thrown
      | Inr acc' \<Rightarrow> update_shops_v1 SHOPIFY_SHOPS rt row rest acc')"

definition update_row_v1 :: "shop list \<Rightarrow> runtime \<Rightarrow> string list option \<Rightarrow> updated_row
    \<Rightarrow> update_result list \<times> json state \<Rightarrow> json progress" where
  "update_row_v1 SHOPIFY_SHOPS rt shops row acc =
     (case acc of (updateResults, st) \<Rightarrow>
        (let original = get_property json_props (memorySnapshot st) (sku row);
             st1 = log (SnapshotRead (sku row)) st
         in if \<not> js_truthy original then
              Inr (updateResults @ [skipped row shops], st1)
            else
              (case shops of
                 None \<Rightarrow> Inl (TypeError ''selectedShops is not iterable'', st1)
               | Some names \<Rightarrow>
                   update_shops_v1 SHOPIFY_SHOPS rt row names (updateResults, st1))))"

fun update_rows_v1 :: "shop list \<Rightarrow> runtime \<Rightarrow> string list option \<Rightarrow> updated_row list
    \<Rightarrow> update_result list \<times> json state \<Rightarrow> json progress" where
  "update_rows_v1 SHOPIFY_SHOPS rt shops [] acc = Inr acc"
| "update_rows_v1 SHOPIFY_SHOPS rt shops (row # rest) acc =
     (case update_row_v1 SHOPIFY_SHOPS rt shops row acc of
        Inl thrown \<Rightarrow> Inl thrown
      | Inr acc' \<Rightarrow> update_rows_v1 SHOPIFY_SHOPS rt shops rest acc')"

definition update_v1 :: "shop list \<Rightarrow> runtime \<Rightarrow> update_body \<Rightarrow> json state
    \<Rightarrow> json response \<times> json state" where
  "update_v1 SHOPIFY_SHOPS rt req_body st =
     (case (case updatedRows req_body of
              None \<Rightarrow> Inl (TypeError ''updatedRows is not iterable'', st)
            | Some rows \<Rightarrow>
                update_rows_v1 SHOPIFY_SHOPS rt (selectedShops req_body) rows ([], st)) of
        Inl (err, st') \<Rightarrow>
          (\<lparr>status = 500, body = ErrorBody (JStr ''Update failed.'') None\<rparr>, st')
      | Inr (updateResults, st') \<Rightarrow>
          (\<lparr>status = 200, body = UpdateBody ''Update process completed.'' updateResults\<rparr>,
           st'))"

section \<open>What an update is expected to do\<close>

text \<open>
  The properties below compare the handler with a direct description of a run: which
  shop names resolve, which calls are due for a row, which effects a row leaves in the
  log, and which results it contributes.
\<close>

definition resolves :: "shop list \<Rightarrow> string \<Rightarrow> bool" where
  "resolves SHOPIFY_SHOPS shopName = (find (\<lambda>s. name s = shopName) SHOPIFY_SHOPS \<noteq> None)"

definition resolved :: "shop list \<Rightarrow> string list \<Rightarrow> shop list" where
  "resolved SHOPIFY_SHOPS shops =
     List.map_filter (\<lambda>shopName. find (\<lambda>s. name s = shopName) SHOPIFY_SHOPS) shops"

text \<open>One call per resolvable target shop, in the order given, addressed by \<open>ident\<close>.\<close>

definition shop_calls :: "shop list \<Rightarrow> updated_row \<Rightarrow> string \<Rightarrow> string list \<Rightarrow> http_request list" where
  "shop_calls SHOPIFY_SHOPS row ident shops =
     map (\<lambda>s. put_request s ident (changes row)) (resolved SHOPIFY_SHOPS shops)"

text \<open>
  The identifier a row's calls are addressed by: none when what the store holds for its
  SKU is falsy, so that the row is skipped.
\<close>

definition row_target :: "runtime \<Rightarrow> snapshot_entry js_object \<Rightarrow> updated_row \<Rightarrow> string option" where
  "row_target rt store row =
     (let fetched = get_property entry_props store (sku row)
      in if js_truthy fetched then Some (numericVariantId_of rt fetched) else None)"

definition row_events :: "shop list \<Rightarrow> runtime \<Rightarrow> snapshot_entry js_object \<Rightarrow> string list
    \<Rightarrow> updated_row \<Rightarrow> event list" where
  "row_events SHOPIFY_SHOPS rt store shops row =
     SnapshotRead (sku row) #
     (case row_target rt store row of
        None \<Rightarrow> []
      | Some ident \<Rightarrow> map Http (shop_calls SHOPIFY_SHOPS row ident shops))"

text \<open>The outcomes of consecutive calls, the first one issued at moment \<open>t\<close>.\<close>

fun put_outcomes :: "runtime \<Rightarrow> nat \<Rightarrow> http_request list \<Rightarrow> put_outcome list" where
  "put_outcomes rt t [] = []"
| "put_outcomes rt t (req # reqs) = axios_put rt t req # put_outcomes rt (Suc t) reqs"

text \<open>An outcome whose failure message cannot be built: a rejection with a \<^verbatim>\<open>null\<close> body.\<close>

fun catch_throws :: "put_outcome \<Rightarrow> bool" where
  "catch_throws (PutRejected (Some JNull) msg) = True"
| "catch_throws out = False"

text \<open>The message reported for any other outcome.\<close>

definition outcome_message :: "runtime \<Rightarrow> put_outcome \<Rightarrow> string" where
  "outcome_message rt out =
     (case out of
        PutResolved \<Rightarrow> ''Update successful''
      | PutRejected resp msg \<Rightarrow>
          ''Update failed: '' @ (case failure_detail rt resp msg of Inl thrown \<Rightarrow> [] | Inr d \<Rightarrow> d))"

text \<open>The state a run of the loops ends in, completed or abandoned.\<close>

definition reached :: "'e progress \<Rightarrow> 'e state" where
  "reached r = (case r of Inl (thrown, st) \<Rightarrow> st | Inr (updateResults, st) \<Rightarrow> st)"

text \<open>
  The results of a row read at moment \<open>t\<close>: one skip result when the row has no target,
  otherwise one result per resolvable shop, carrying the outcome of that shop's call.
\<close>

definition row_results :: "shop list \<Rightarrow> runtime \<Rightarrow> nat \<Rightarrow> snapshot_entry js_object \<Rightarrow> string list
    \<Rightarrow> updated_row \<Rightarrow> update_result list" where
  "row_results SHOPIFY_SHOPS rt t store shops row =
     (case row_target rt store row of
        None \<Rightarrow> [skipped row (Some shops)]
      | Some ident \<Rightarrow>
          map (\<lambda>(shopName, out). shop_result row shopName (outcome_message rt out))
            (zip (filter (resolves SHOPIFY_SHOPS) shops)
                 (put_outcomes rt (Suc t) (shop_calls SHOPIFY_SHOPS row ident shops))))"

fun expected_results :: "shop list \<Rightarrow> runtime \<Rightarrow> nat \<Rightarrow> snapshot_entry js_object \<Rightarrow> string list
    \<Rightarrow> updated_row list \<Rightarrow> update_result list" where
  "expected_results SHOPIFY_SHOPS rt t store shops [] = []"
| "expected_results SHOPIFY_SHOPS rt t store shops (row # rest) =
     row_results SHOPIFY_SHOPS rt t store shops row @
     expected_results SHOPIFY_SHOPS rt
       (t + length (row_events SHOPIFY_SHOPS rt store shops row)) store shops rest"

text \<open>The store is the same and no write to it has been logged since.\<close>

definition untouched :: "'e state \<Rightarrow> 'e state \<Rightarrow> bool" where
  "untouched st st' =
     (memorySnapshot st' = memorySnapshot st \<and>
      filter is_write (events st') = filter is_write (events st))"

text \<open>A result without its message: what does not depend on how the calls went.\<close>

definition unmessaged :: "update_result \<Rightarrow> update_result" where
  "unmessaged r = r\<lparr>res_message := []\<rparr>"

section \<open>What a failed fetch is expected to answer\<close>

datatype fetch_failure = NotFound | UpstreamError json | TransportError string

fun failure_response :: "fetch_failure \<Rightarrow> snapshot_entry response" where
  "failure_response NotFound =
     \<lparr>status = 404, body = ErrorBody (JStr ''SKU not found'') None\<rparr>"
| "failure_response (UpstreamError errs) =
     \<lparr>status = 500, body = ErrorBody errs None\<rparr>"
| "failure_response (TransportError msg) =
     \<lparr>status = 500, body = ErrorBody (JStr ''Fetch failed'') (Some msg)\<rparr>"

section \<open>Example data\<close>

text \<open>The state of a fresh process: \<^verbatim>\<open>let memorySnapshot = {}\<close>, nothing done yet.\<close>

definition initial_state :: "'e state" where
  "initial_state = \<lparr>memorySnapshot = empty_object, events = []\<rparr>"

definition ShopA :: shop where
  "ShopA = \<lparr>name = ''ShopA'', domain = ''a.example.com'', token = ''tokenA''\<rparr>"

definition ShopB :: shop where
  "ShopB = \<lparr>name = ''ShopB'', domain = ''b.example.com'', token = ''tokenB''\<rparr>"

definition example_variant :: variant where
  "example_variant =
     \<lparr>var_id = ''gid://shopify/ProductVariant/1234567890'',
      var_sku = JStr ''SKU123'',
      var_price = JStr ''29.99'',
      var_inventoryQuantity = JNum 5,
      var_product = JObj [(''title'', JStr ''Sample Product'')],
      var_image = JNull\<rparr>"

text \<open>A runtime whose every query is answered by \<open>out\<close> and whose every update succeeds.\<close>

definition answering :: "post_outcome \<Rightarrow> runtime" where
  "answering out =
     \<lparr>axios_post = (\<lambda>t req. out),
      axios_put = (\<lambda>t req. PutResolved),
      JSON_stringify = (\<lambda>v. ''{}''),
      template_text = (\<lambda>v. ''[object Object]'')\<rparr>"

text \<open>
  A runtime whose every query is rejected, with the answer's body \<open>resp\<close> (if the upstream
  answered) and the message \<open>msg\<close>.
\<close>

definition rejecting :: "json option \<Rightarrow> string \<Rightarrow> runtime" where
  "rejecting resp msg =
     \<lparr>axios_post = (\<lambda>t req. PostRejected resp msg),
      axios_put = (\<lambda>t req. PutResolved),
      JSON_stringify = (\<lambda>v. ''{}''),
      template_text = (\<lambda>v. ''[object Object]'')\<rparr>"

text \<open>The state after \<^verbatim>\<open>SKU123\<close> has been fetched in a fresh process.\<close>

definition fetched_state :: "snapshot_entry state" where
  "fetched_state =
     snd (fetch ShopA (answering (PostResolved \<lparr>errors = None, edges = [example_variant]\<rparr>))
            (Some ''SKU123'') initial_state)"

definition example_row :: updated_row where
  "example_row =
     \<lparr>sku = ''SKU123'', changes = JObj [(''price'', JStr ''25.99'')], rowNumber = JNum 1\<rparr>"

definition unfetched_row :: updated_row where
  "unfetched_row =
     \<lparr>sku = ''SKU999'', changes = JObj [(''price'', JStr ''1.00'')], rowNumber = JNum 2\<rparr>"

text \<open>A row for a SKU that was never fetched and names an inherited property.\<close>

definition inherited_row :: updated_row where
  "inherited_row =
     \<lparr>sku = ''constructor'', changes = JObj [(''price'', JStr ''9.99'')], rowNumber = JNum 3\<rparr>"

text \<open>
  A runtime in which every update call to ShopA is answered 404 with an error body, and
  every other update call succeeds.
\<close>

definition failing_ShopA :: runtime where
  "failing_ShopA =
     \<lparr>axios_post = (\<lambda>t req. PostRejected None ''getaddrinfo ENOTFOUND''),
      axios_put = (\<lambda>t req.
        if headers req = shop_headers ShopA
        then PutRejected (Some (JObj [(''errors'', JStr ''Not Found'')]))
               ''Request failed with status code 404''
        else PutResolved),
      JSON_stringify = (\<lambda>v. case v of JStr s \<Rightarrow> [CHR 0x22] @ s @ [CHR 0x22] | _ \<Rightarrow> ''{}''),
      template_text = (\<lambda>v. ''[object Object]'')\<rparr>"

text \<open>
  A runtime in which every update call to the shop \<open>s\<close> is answered 500 with the body
  \<^verbatim>\<open>null\<close>, and every other update call succeeds.
\<close>

definition null_body_from :: "shop \<Rightarrow> runtime" where
  "null_body_from s =
     \<lparr>axios_post = (\<lambda>t req. PostRejected None ''getaddrinfo ENOTFOUND''),
      axios_put = (\<lambda>t req.
        if headers req = shop_headers s
        then PutRejected (Some JNull) ''Request failed with status code 500''
        else PutResolved),
      JSON_stringify = (\<lambda>v. ''{}''),
      template_text = (\<lambda>v. ''[object Object]'')\<rparr>"

section \<open>Properties of the fetch handler\<close>

lemma split_not_Nil: "split c s \<noteq> []"
  by (induction s) (auto split: list.splits)

lemma split_no_sep: "c \<notin> set s \<Longrightarrow> split c s = [s]"
  by (induction s) auto

lemma split_last_sep: "c \<notin> set b \<Longrightarrow> split c (a @ c # b) = split c a @ [b]"
proof (induction a)
  case Nil
  then show ?case by (simp add: split_no_sep)
next
  case (Cons x a)
  then show ?case
    using split_not_Nil [of c a] by (cases "split c a") auto
qed

lemma numeric_id_of_no_slash: "CHR ''/'' \<notin> set gid \<Longrightarrow> numeric_id_of gid = gid"
  by (simp add: numeric_id_of_def split_no_sep)

lemma numeric_id_of_after_slash:
  "CHR ''/'' \<notin> set b \<Longrightarrow> numeric_id_of (a @ CHR ''/'' # b) = b"
  by (simp add: numeric_id_of_def split_last_sep)

lemma numeric_id_of_trailing:
  "\<exists>pre. gid = pre @ numeric_id_of gid \<and> (pre = [] \<or> last pre = CHR ''/'') \<and>
     CHR ''/'' \<notin> set (numeric_id_of gid)"
proof (cases "CHR ''/'' \<in> set gid")
  case True
  then obtain a b where ab: "gid = a @ CHR ''/'' # b" "CHR ''/'' \<notin> set b"
    by (meson split_list_last)
  then have "numeric_id_of gid = b"
    by (simp add: numeric_id_of_after_slash)
  with ab have "gid = (a @ [CHR ''/'']) @ numeric_id_of gid \<and>
      last (a @ [CHR ''/'']) = CHR ''/'' \<and> CHR ''/'' \<notin> set (numeric_id_of gid)"
    by simp
  then show ?thesis by blast
next
  case False
  then show ?thesis by (simp add: numeric_id_of_no_slash)
qed

lemma numeric_id_of_example:
  "numeric_id_of ''gid://shopify/ProductVariant/1234567890'' = ''1234567890''"
  by (simp add: numeric_id_of_def)

lemma get_set_property: "get_property props (set_property obj key e) key = Stored e"
  by (simp add: get_property_def set_property_def)

lemma with_numeric_id_simps:
  "numericVariantId (with_numeric_id v n) = n"
  "variant.truncate (with_numeric_id v n) = v"
  by (simp_all add: with_numeric_id_def variant.defs snapshot_entry.defs)

text \<open>
  The second variant on a request without \<^verbatim>\<open>sku\<close>, or with an empty one: 400, and the
  state (store and effect log) is the one it started from.
\<close>

lemma fetch_missing_sku:
  "q = None \<or> q = Some [] \<Longrightarrow>
     fetch rep rt q st =
       (\<lparr>status = 400, body = ErrorBody (JStr ''Missing 'sku' query parameter.'') None\<rparr>, st)"
  by (auto simp: fetch_def)

text \<open>
  C4. When the upstream answers the query without errors and with no matching variant,
  the fetch handler answers 404 with the error \<^verbatim>\<open>SKU not found\<close>; the Snapshot Store is the
  same object as before, for every SKU, and the only effect logged is the query itself.
\<close>

theorem fetch_not_found_keeps_snapshot:
  assumes "k \<noteq> []"
    and "axios_post rt (now st) (graphql_request rep k) = PostResolved data"
    and "upstream_errors data = None"
    and "edges data = []"
  shows "fst (fetch rep rt (Some k) st) =
           \<lparr>status = 404, body = ErrorBody (JStr ''SKU not found'') None\<rparr> \<and>
         memorySnapshot (snd (fetch rep rt (Some k) st)) = memorySnapshot st \<and>
         events (snd (fetch rep rt (Some k) st)) = events st @ [Http (graphql_request rep k)]"
  using assms by (simp add: fetch_def Let_def log_def)

theorem fetch_not_found_keeps_snapshot_witness:
  "fst (fetch ShopA (answering (PostResolved \<lparr>errors = None, edges = []\<rparr>)) (Some ''SKU404'')
          initial_state) =
     \<lparr>status = 404, body = ErrorBody (JStr ''SKU not found'') None\<rparr> \<and>
   memorySnapshot (snd (fetch ShopA (answering (PostResolved \<lparr>errors = None, edges = []\<rparr>))
          (Some ''SKU404'') initial_state)) = empty_object"
proof -
  have k: "''SKU404'' \<noteq> []" by simp
  have out: "axios_post (answering (PostResolved \<lparr>errors = None, edges = []\<rparr>))
      (now initial_state) (graphql_request ShopA ''SKU404'') =
      PostResolved \<lparr>errors = None, edges = []\<rparr>"
    by (simp add: answering_def)
  have no_errors: "upstream_errors \<lparr>errors = None, edges = []\<rparr> = None"
    by (simp add: upstream_errors_def)
  have no_edges: "edges \<lparr>errors = None, edges = []\<rparr> = []" by simp
  from fetch_not_found_keeps_snapshot [OF k out no_errors no_edges]
  show ?thesis by (simp add: initial_state_def)
qed

text \<open>
  C8. When a fetch succeeds (status 200), the upstream answered the query for the
  requested SKU with at least one variant; the entry returned to the caller and the entry
  assigned to the Snapshot Store under the requested SKU are the first variant extended
  with \<^verbatim>\<open>numericVariantId\<close>; reading the store at the requested SKU afterwards gives that
  entry; and that identifier is the part of the variant's \<^verbatim>\<open>id\<close> after its last \<^verbatim>\<open>/\<close>
  (the whole \<^verbatim>\<open>id\<close> when it has none).
\<close>

theorem fetch_stores_trailing_segment:
  assumes "fetch rep rt q st = (resp, st')" and "status resp = 200"
  shows "\<exists>k data v rest.
           q = Some k \<and>
           axios_post rt (now st) (graphql_request rep k) = PostResolved data \<and>
           edges data = v # rest \<and>
           body resp = FetchBody ''Fetch completed successfully.''
                         (with_numeric_id v (numeric_id_of (var_id v))) \<and>
           memorySnapshot st' =
             set_property (memorySnapshot st) k
               (with_numeric_id v (numeric_id_of (var_id v))) \<and>
           get_property entry_props (memorySnapshot st') k =
             Stored (with_numeric_id v (numeric_id_of (var_id v))) \<and>
           numericVariantId (with_numeric_id v (numeric_id_of (var_id v))) =
             numeric_id_of (var_id v) \<and>
           (\<exists>pre. var_id v = pre @ numeric_id_of (var_id v) \<and>
                  (pre = [] \<or> last pre = CHR ''/'')) \<and>
           CHR ''/'' \<notin> set (numeric_id_of (var_id v))"
proof -
  from assms obtain k data v rest where run:
    "q = Some k"
    "axios_post rt (now st) (graphql_request rep k) = PostResolved data"
    "edges data = v # rest"
    "body resp = FetchBody ''Fetch completed successfully.''
                   (with_numeric_id v (numeric_id_of (var_id v)))"
    "memorySnapshot st' =
       set_property (memorySnapshot st) k (with_numeric_id v (numeric_id_of (var_id v)))"
    by (auto simp: fetch_def log_def Let_def
             split: option.splits post_outcome.splits list.splits if_splits)
  from numeric_id_of_trailing [of "var_id v"]
  have "(\<exists>pre. var_id v = pre @ numeric_id_of (var_id v) \<and>
               (pre = [] \<or> last pre = CHR ''/''))"
    and "CHR ''/'' \<notin> set (numeric_id_of (var_id v))"
    by blast+
  with run show ?thesis
    by (simp add: with_numeric_id_simps get_set_property)
qed

theorem fetch_stores_trailing_segment_witness:
  "get_property entry_props
     (memorySnapshot
        (snd (fetch ShopA (answering (PostResolved \<lparr>errors = None, edges = [example_variant]\<rparr>))
                (Some ''SKU123'') initial_state))) ''SKU123'' =
     Stored (with_numeric_id example_variant ''1234567890'')"
proof -
  let ?rt = "answering (PostResolved \<lparr>errors = None, edges = [example_variant]\<rparr>)"
  define resp :: "snapshot_entry response" where
    "resp = \<lparr>status = 200, body = FetchBody ''Fetch completed successfully.''
        (with_numeric_id example_variant (numeric_id_of (var_id example_variant)))\<rparr>"
  define st' where "st' = snd (fetch ShopA ?rt (Some ''SKU123'') initial_state)"
  have run: "fetch ShopA ?rt (Some ''SKU123'') initial_state = (resp, st')"
    unfolding st'_def resp_def
    by (simp add: fetch_def Let_def answering_def upstream_errors_def)
  have ok: "status resp = 200"
    by (simp add: resp_def)
  have id: "numeric_id_of (var_id example_variant) = ''1234567890''"
    by (simp add: example_variant_def numeric_id_of_example)
  from fetch_stores_trailing_segment [OF run ok]
  have "get_property entry_props (memorySnapshot st') ''SKU123'' =
      Stored (with_numeric_id example_variant (numeric_id_of (var_id example_variant)))"
    by (elim exE conjE) (clarsimp simp: answering_def)
  then show ?thesis
    using run id by simp
qed

text \<open>
  The failures the fetch handler tells apart. No matching variant: 404 \<^verbatim>\<open>SKU not found\<close>.
  A resolved answer with truthy \<^verbatim>\<open>errors\<close>: 500 whose \<^verbatim>\<open>error\<close> is that value itself. A
  rejected call: 500 \<^verbatim>\<open>Fetch failed\<close> whose \<^verbatim>\<open>details\<close> is the error message. These
  answers determine which of the three it was.
\<close>

lemma fetch_failure_answers:
  assumes "k \<noteq> []"
  shows "(axios_post rt (now st) (graphql_request rep k) = PostRejected resp msg \<longrightarrow>
            fst (fetch rep rt (Some k) st) = failure_response (TransportError msg)) \<and>
         (axios_post rt (now st) (graphql_request rep k) = PostResolved data \<and>
            upstream_errors data = Some errs \<longrightarrow>
            fst (fetch rep rt (Some k) st) = failure_response (UpstreamError errs)) \<and>
         (axios_post rt (now st) (graphql_request rep k) = PostResolved data \<and>
            upstream_errors data = None \<and> edges data = [] \<longrightarrow>
            fst (fetch rep rt (Some k) st) = failure_response NotFound) \<and>
         inj failure_response"
proof -
  have "inj failure_response"
  proof (rule injI)
    fix x y
    assume "failure_response x = failure_response y"
    then show "x = y" by (cases x; cases y) simp_all
  qed
  with assms show ?thesis
    by (simp add: fetch_def Let_def)
qed

text \<open>
  C9. An upstream error payload is not always surfaced. When the upstream answers the
  query with status 401 and the body \<^verbatim>\<open>{"errors": "[API] Invalid API key or access token"}\<close>,
  \<^verbatim>\<open>axios.post\<close> rejects and the handler answers 500 \<^verbatim>\<open>Fetch failed\<close> with the message of the
  rejection only: the upstream's detail is not in the answer. For any rejection the answer
  is the same whether the upstream sent an error body or nothing arrived at all, so the
  caller cannot tell an upstream error from a transport failure.
\<close>

theorem fetch_swallows_rejected_error_payload:
  "fst (fetch ShopA
          (rejecting (Some (JObj [(''errors'', JStr ''[API] Invalid API key or access token'')]))
             ''Request failed with status code 401'')
          (Some ''SKU123'') initial_state) =
     \<lparr>status = 500,
      body = ErrorBody (JStr ''Fetch failed'') (Some ''Request failed with status code 401'')\<rparr> \<and>
   fst (fetch rep (rejecting (Some upstream_body) msg) (Some ''SKU123'') st) =
     fst (fetch rep (rejecting None msg) (Some ''SKU123'') st)"
  by (simp add: fetch_def Let_def rejecting_def)

section \<open>Properties of the update handler\<close>

subsection \<open>What the loops leave alone\<close>

lemma untouched_refl: "untouched st st"
  by (simp add: untouched_def)

lemma untouched_trans: "untouched a b \<Longrightarrow> untouched b c \<Longrightarrow> untouched a c"
  by (simp add: untouched_def)

lemma untouched_log_http: "untouched st (log (Http req) st)"
  by (simp add: untouched_def log_def is_write_def)

lemma untouched_log_read: "untouched st (log (SnapshotRead k) st)"
  by (simp add: untouched_def log_def is_write_def)

lemma put_variant_untouched: "untouched st (reached (put_variant rt row n req (rs, st)))"
  by (simp add: put_variant_def reached_def untouched_log_http
           split: put_outcome.splits sum.splits)

lemma update_shop_untouched:
  "untouched st (reached (update_shop S rt row ident n (rs, st)))"
  by (simp add: update_shop_def put_variant_untouched split: option.splits)
     (simp add: reached_def untouched_refl)

lemma update_shops_untouched:
  "untouched st (reached (update_shops S rt row ident shops (rs, st)))"
proof (induction shops arbitrary: rs st)
  case Nil
  show ?case by (simp add: reached_def untouched_refl)
next
  case (Cons n shops)
  have step: "untouched st (reached (update_shop S rt row ident n (rs, st)))"
    by (rule update_shop_untouched)
  show ?case
  proof (cases "update_shop S rt row ident n (rs, st)")
    case (Inl thrown)
    with step show ?thesis by simp
  next
    case (Inr acc)
    obtain rs1 st1 where acc: "acc = (rs1, st1)" by (cases acc)
    from step Inr acc have "untouched st st1" by (simp add: reached_def)
    moreover have "untouched st1 (reached (update_shops S rt row ident shops (rs1, st1)))"
      by (rule Cons.IH)
    ultimately show ?thesis
      using Inr acc by (simp add: untouched_trans)
  qed
qed

lemma update_row_untouched:
  "untouched st (reached (update_row S rt shops row (rs, st)))"
proof -
  have a: "untouched st (log (SnapshotRead (sku row)) st)"
    by (rule untouched_log_read)
  have b: "untouched (log (SnapshotRead (sku row)) st)
      (reached (update_shops S rt row ident shops (rs, log (SnapshotRead (sku row)) st)))"
    for ident
    by (rule update_shops_untouched)
  show ?thesis
    using a untouched_trans [OF a b]
    by (simp add: update_row_def Let_def reached_def)
qed

lemma update_rows_untouched:
  "untouched st (reached (update_rows S rt shops rows (rs, st)))"
proof (induction rows arbitrary: rs st)
  case Nil
  show ?case by (simp add: reached_def untouched_refl)
next
  case (Cons row rows)
  have step: "untouched st (reached (update_row S rt shops row (rs, st)))"
    by (rule update_row_untouched)
  show ?case
  proof (cases "update_row S rt shops row (rs, st)")
    case (Inl thrown)
    with step show ?thesis by simp
  next
    case (Inr acc)
    obtain rs1 st1 where acc: "acc = (rs1, st1)" by (cases acc)
    from step Inr acc have "untouched st st1" by (simp add: reached_def)
    moreover have "untouched st1 (reached (update_rows S rt shops rows (rs1, st1)))"
      by (rule Cons.IH)
    ultimately show ?thesis
      using Inr acc by (simp add: untouched_trans)
  qed
qed

lemma update_untouched: "untouched st (snd (update S rt req_body st))"
proof (cases req_body)
  case None
  then show ?thesis by (simp add: update_def untouched_refl)
next
  case (Some b)
  show ?thesis
  proof (cases "updatedRows b")
    case None
    with Some show ?thesis by (simp add: update_def untouched_refl)
  next
    case rows: (Some rows)
    show ?thesis
    proof (cases "selectedShops b")
      case None
      with Some rows show ?thesis by (simp add: update_def untouched_refl)
    next
      case shops: (Some shops)
      have "untouched st (reached (update_rows S rt shops rows ([], st)))"
        by (rule update_rows_untouched)
      then show ?thesis
        using Some rows shops
        by (auto simp: update_def reached_def split: sum.splits exn.splits)
    qed
  qed
qed

text \<open>
  C10. An update, whatever its body and whatever the outcomes of its calls, leaves the
  Snapshot Store as it found it, for every SKU, and logs no write to it.
\<close>

theorem update_never_writes_snapshot:
  "memorySnapshot (snd (update S rt req_body st)) = memorySnapshot st \<and>
   filter is_write (events (snd (update S rt req_body st))) = filter is_write (events st)"
  using update_untouched [of st S rt req_body] by (simp add: untouched_def)

subsection \<open>The loops in closed form, when no failure message throws\<close>

lemma now_log: "now (log e st) = Suc (now st)"
  by (simp add: now_def log_def)

lemma failure_detail_no_throw:
  "\<not> catch_throws (PutRejected resp msg) \<Longrightarrow>
     \<exists>d. failure_detail rt resp msg = Inr d"
proof (cases resp)
  case None
  then show ?thesis by (simp add: failure_detail_def)
next
  case (Some data)
  assume "\<not> catch_throws (PutRejected resp msg)"
  with Some show ?thesis
    by (cases data) (simp_all add: failure_detail_def read_errors_def split: option.splits)
qed

lemma put_variant_eq:
  assumes "\<not> catch_throws (axios_put rt (now st) req)"
  shows "put_variant rt row n req (rs, st) =
     Inr (rs @ [shop_result row n (outcome_message rt (axios_put rt (now st) req))],
          log (Http req) st)"
proof (cases "axios_put rt (now st) req")
  case PutResolved
  then show ?thesis by (simp add: put_variant_def outcome_message_def)
next
  case (PutRejected resp msg)
  with assms obtain d where "failure_detail rt resp msg = Inr d"
    using failure_detail_no_throw [of resp msg rt] by auto
  with PutRejected show ?thesis by (simp add: put_variant_def outcome_message_def)
qed

lemma put_variant_throws:
  assumes "axios_put rt (now st) req = PutRejected (Some JNull) msg"
  shows "put_variant rt row n req (rs, st) =
     Inl (TypeError ''Cannot read properties of null (reading 'errors')'', log (Http req) st)"
  using assms by (simp add: put_variant_def failure_detail_def read_errors_def)

lemma resolved_Nil: "resolved S [] = []"
  by (simp add: resolved_def)

lemma resolved_Cons:
  "resolved S (n # ns) =
     (case find (\<lambda>s. name s = n) S of None \<Rightarrow> resolved S ns | Some s \<Rightarrow> s # resolved S ns)"
  by (simp add: resolved_def split: option.splits)

lemma length_resolved: "length (resolved S ns) = length (filter (resolves S) ns)"
  by (induction ns) (auto simp: resolved_Nil resolved_Cons resolves_def split: option.splits)

lemma length_put_outcomes: "length (put_outcomes rt t reqs) = length reqs"
  by (induction reqs arbitrary: t) auto

lemma update_shops_eq:
  assumes ok: "\<And>t req. \<not> catch_throws (axios_put rt t req)"
  shows "update_shops S rt row ident shops (rs, st) =
     Inr (rs @ map (\<lambda>(n, out). shop_result row n (outcome_message rt out))
                 (zip (filter (resolves S) shops)
                      (put_outcomes rt (now st) (shop_calls S row ident shops))),
          st\<lparr>events := events st @ map Http (shop_calls S row ident shops)\<rparr>)"
proof (induction shops arbitrary: rs st)
  case Nil
  show ?case by (simp add: shop_calls_def resolved_Nil)
next
  case (Cons n shops)
  show ?case
  proof (cases "find (\<lambda>s. name s = n) S")
    case None
    then show ?thesis
      using Cons.IH [of rs st]
      by (simp add: update_shop_def shop_calls_def resolved_Cons resolves_def)
  next
    case (Some s)
    let ?req = "put_request s ident (changes row)"
    have step: "update_shop S rt row ident n (rs, st) =
        Inr (rs @ [shop_result row n (outcome_message rt (axios_put rt (now st) ?req))],
             log (Http ?req) st)"
      using Some by (simp add: update_shop_def put_variant_eq [OF ok])
    show ?thesis
      using Some
        Cons.IH [of "rs @ [shop_result row n (outcome_message rt (axios_put rt (now st) ?req))]"
                    "log (Http ?req) st"]
      by (simp add: step shop_calls_def resolved_Cons resolves_def now_log)
         (simp add: log_def)
  qed
qed

lemma update_row_eq:
  assumes ok: "\<And>t req. \<not> catch_throws (axios_put rt t req)"
  shows "update_row S rt shops row (rs, st) =
     Inr (rs @ row_results S rt (now st) (memorySnapshot st) shops row,
          st\<lparr>events := events st @ row_events S rt (memorySnapshot st) shops row\<rparr>)"
  by (simp add: update_row_def row_results_def row_events_def row_target_def
        update_shops_eq [OF ok] now_def log_def Let_def)

lemma update_rows_eq:
  assumes ok: "\<And>t req. \<not> catch_throws (axios_put rt t req)"
  shows "update_rows S rt shops rows (rs, st) =
     Inr (rs @ expected_results S rt (now st) (memorySnapshot st) shops rows,
          st\<lparr>events := events st @
               concat (map (row_events S rt (memorySnapshot st) shops) rows)\<rparr>)"
proof (induction rows arbitrary: rs st)
  case Nil
  show ?case by simp
next
  case (Cons row rows)
  show ?case
    by (simp add: update_row_eq [OF ok] Cons.IH now_def)
qed

lemma unmessaged_row_results:
  "row_target rt store row = Some ident \<Longrightarrow>
     map unmessaged (row_results S rt t store shops row) =
       map (\<lambda>n. shop_result row n []) (filter (resolves S) shops)"
proof -
  assume f: "row_target rt store row = Some ident"
  let ?calls = "shop_calls S row ident shops"
  have len: "length (put_outcomes rt (Suc t) ?calls) = length (filter (resolves S) shops)"
    by (simp add: length_put_outcomes shop_calls_def length_resolved)
  have "map unmessaged (map (\<lambda>(n, out). shop_result row n (outcome_message rt out))
          (zip (filter (resolves S) shops) (put_outcomes rt (Suc t) ?calls))) =
        map (\<lambda>n. shop_result row n [])
          (map fst (zip (filter (resolves S) shops) (put_outcomes rt (Suc t) ?calls)))"
    by (simp add: unmessaged_def shop_result_def case_prod_unfold)
  also have "map fst (zip (filter (resolves S) shops) (put_outcomes rt (Suc t) ?calls)) =
      filter (resolves S) shops"
    using len by simp
  finally show ?thesis using f by (simp add: row_results_def)
qed

lemma unmessaged_expected_results:
  "map unmessaged (expected_results S rt t store shops rows) =
     concat (map (\<lambda>row.
       case row_target rt store row of
         None \<Rightarrow> [unmessaged (skipped row (Some shops))]
       | Some ident \<Rightarrow> map (\<lambda>n. shop_result row n []) (filter (resolves S) shops)) rows)"
proof (induction rows arbitrary: t)
  case Nil
  show ?case by simp
next
  case (Cons row rows)
  show ?case
  proof (cases "row_target rt store row")
    case None
    then show ?thesis by (simp add: Cons.IH row_results_def)
  next
    case (Some ident)
    then show ?thesis by (simp add: Cons.IH unmessaged_row_results)
  qed
qed

lemma row_target_Stored:
  "get_property entry_props store (sku row) = Stored fetched \<Longrightarrow>
     row_target rt store row = Some (numericVariantId fetched)"
  by (simp add: row_target_def numericVariantId_of_def)

text \<open>
  An update in a runtime where no failure message throws (no call is rejected with a
  \<^verbatim>\<open>null\<close> body): it answers 200 with the results of all rows in order; the effects logged
  are, per row, the read of the store followed by one call per resolvable shop when the
  row is not skipped; a row that is not skipped contributes exactly one result per
  resolvable shop name, in the order given, and none for a name that does not resolve.
\<close>

lemma update_when_no_catch_throws:
  assumes ok: "\<And>t req. \<not> catch_throws (axios_put rt t req)"
  shows "update S rt (Some \<lparr>updatedRows = Some rows, selectedShops = Some shops\<rparr>) st =
     (\<lparr>status = 200,
       body = UpdateBody ''Update process completed.''
                (expected_results S rt (now st) (memorySnapshot st) shops rows)\<rparr>,
      st\<lparr>events := events st @
           concat (map (row_events S rt (memorySnapshot st) shops) rows)\<rparr>) \<and>
   map unmessaged (expected_results S rt (now st) (memorySnapshot st) shops rows) =
     concat (map (\<lambda>row.
       case row_target rt (memorySnapshot st) row of
         None \<Rightarrow> [unmessaged (skipped row (Some shops))]
       | Some ident \<Rightarrow>
           map (\<lambda>shopName. shop_result row shopName []) (filter (resolves S) shops)) rows)"
  by (simp add: update_def update_rows_eq [OF ok] unmessaged_expected_results)

text \<open>
  The calls for a row whose SKU has a Snapshot Store entry: each is a \<^verbatim>\<open>PUT\<close> to the
  variant URL built from the shop's domain and the entry's \<^verbatim>\<open>numericVariantId\<close>.
\<close>

lemma update_calls_use_numeric_id:
  assumes "get_property entry_props store (sku row) = Stored fetched"
  shows "row_events S rt store shops row =
           SnapshotRead (sku row) #
           map (\<lambda>s. Http \<lparr>verb = PUT,
                           url = ''https://'' @ domain s @ ''/admin/api/2023-04/variants/'' @
                                 numericVariantId fetched @ ''.json'',
                           payload = JObj [(''variant'', changes row)],
                           headers = shop_headers s\<rparr>)
               (resolved S shops)"
  using assms
  by (simp add: row_events_def row_target_Stored shop_calls_def put_request_def variant_url_def)

lemma fetched_state_eq:
  "fetched_state =
     \<lparr>memorySnapshot =
        \<lparr>own = [''SKU123'' \<mapsto> with_numeric_id example_variant ''1234567890''], proto = None\<rparr>,
      events = [Http (graphql_request ShopA ''SKU123''), SnapshotWrite ''SKU123'']\<rparr>"
  by (simp add: fetched_state_def fetch_def Let_def answering_def upstream_errors_def
        initial_state_def empty_object_def set_property_def log_def example_variant_def
        numeric_id_of_example)

subsection \<open>Requests with missing fields\<close>

text \<open>
  The second variant on a body without \<^verbatim>\<open>updatedRows\<close> or without \<^verbatim>\<open>selectedShops\<close>:
  400, and the state is the one it started from, so the store was not read and no call
  was issued.
\<close>

lemma update_missing_fields:
  "updatedRows b = None \<or> selectedShops b = None \<Longrightarrow>
     update S rt (Some b) st =
       (\<lparr>status = 400,
         body = ErrorBody (JStr ''Missing 'updatedRows' or 'selectedShops' in request body.'') None\<rparr>,
        st)"
  by (auto simp: update_def split: option.splits)

text \<open>A request whose \<^verbatim>\<open>req.body\<close> is \<^verbatim>\<open>undefined\<close>: the destructuring throws, 500.\<close>

lemma update_without_body:
  "update S rt None st =
     (\<lparr>status = 500,
       body = ErrorBody (JStr ''Update failed'')
                (Some ''Cannot destructure property 'updatedRows' of 'req.body' as it is undefined.'')\<rparr>,
      st)"
  by (simp add: update_def)

subsection \<open>Rows, shops and results\<close>

text \<open>
  A row for whose SKU the store holds nothing, not even an inherited property:
  processing it pushes exactly one result, with the \<^verbatim>\<open>shops\<close> field holding all requested
  shop names and the skip message, and logs the read of the store and nothing else.
\<close>

lemma update_skips_undefined_row:
  assumes "get_property entry_props (memorySnapshot st) (sku row) = Undefined"
  shows "update_row S rt shops row (updateResults, st) =
           Inr (updateResults @
                  [\<lparr>res_sku = sku row, res_rowNumber = rowNumber row,
                    res_shops = Some shops, res_shop = None,
                    res_message = ''SKU not found in snapshot, skipping update.''\<rparr>],
                st\<lparr>events := events st @ [SnapshotRead (sku row)]\<rparr>)"
  using assms by (simp add: update_row_def skipped_def log_def)

text \<open>
  C5. A row whose SKU was never fetched is not always skipped. In a fresh process, with
  an empty Snapshot Store, an update of the SKU \<^verbatim>\<open>constructor\<close> for ShopB reads
  \<^verbatim>\<open>memorySnapshot['constructor']\<close>, which is the function every object inherits and is
  truthy; the handler emits no skip result, issues one call to ShopB, addressed by
  \<^verbatim>\<open>undefined\<close>, and reports its outcome.
\<close>

theorem update_calls_for_inherited_name:
  "update [ShopA, ShopB] failing_ShopA
     (Some \<lparr>updatedRows = Some [inherited_row], selectedShops = Some [''ShopB'']\<rparr>)
     initial_state =
   (\<lparr>status = 200,
     body = UpdateBody ''Update process completed.''
       [\<lparr>res_sku = ''constructor'', res_rowNumber = JNum 3, res_shops = None,
         res_shop = Some ''ShopB'', res_message = ''Update successful''\<rparr>]\<rparr>,
    \<lparr>memorySnapshot = empty_object,
     events =
       [SnapshotRead ''constructor'',
        Http \<lparr>verb = PUT,
              url = ''https://b.example.com/admin/api/2023-04/variants/undefined.json'',
              payload = JObj [(''variant'', JObj [(''price'', JStr ''9.99'')])],
              headers = [(''X-Shopify-Access-Token'', ''tokenB''),
                         (''Content-Type'', ''application/json'')]\<rparr>]\<rparr>)"
  by (simp add: update_def update_row_def update_shop_def put_variant_def put_request_def
        variant_url_def shop_headers_def shop_result_def get_property_def empty_object_def
        Object_prototype_names_def numericVariantId_of_def initial_state_def inherited_row_def
        failing_ShopA_def ShopA_def ShopB_def log_def now_def)

text \<open>
  C6. A row whose SKU has a Snapshot Store entry does not always get one result per
  resolvable shop. After \<^verbatim>\<open>SKU123\<close> has been fetched, an update of it for the targets
  ShopA, Nowhere and ShopB, of which ShopA and ShopB resolve, calls ShopA, which succeeds,
  then ShopB, which answers 500 with the body \<^verbatim>\<open>null\<close>. Building the failure message
  throws inside the \<^verbatim>\<open>catch\<close> block; the handler answers 500 \<^verbatim>\<open>Update failed\<close> and the
  response holds no result at all, not the two the row is due.
\<close>

theorem update_drops_results_on_null_body:
  "update [ShopA, ShopB] (null_body_from ShopB)
     (Some \<lparr>updatedRows = Some [example_row],
            selectedShops = Some [''ShopA'', ''Nowhere'', ''ShopB'']\<rparr>)
     fetched_state =
   (\<lparr>status = 500,
     body = ErrorBody (JStr ''Update failed'')
              (Some ''Cannot read properties of null (reading 'errors')'')\<rparr>,
    \<lparr>memorySnapshot =
       \<lparr>own = [''SKU123'' \<mapsto> with_numeric_id example_variant ''1234567890''], proto = None\<rparr>,
     events =
       [Http (graphql_request ShopA ''SKU123''), SnapshotWrite ''SKU123'',
        SnapshotRead ''SKU123'',
        Http \<lparr>verb = PUT,
              url = ''https://a.example.com/admin/api/2023-04/variants/1234567890.json'',
              payload = JObj [(''variant'', JObj [(''price'', JStr ''25.99'')])],
              headers = [(''X-Shopify-Access-Token'', ''tokenA''),
                         (''Content-Type'', ''application/json'')]\<rparr>,
        Http \<lparr>verb = PUT,
              url = ''https://b.example.com/admin/api/2023-04/variants/1234567890.json'',
              payload = JObj [(''variant'', JObj [(''price'', JStr ''25.99'')])],
              headers = [(''X-Shopify-Access-Token'', ''tokenB''),
                         (''Content-Type'', ''application/json'')]\<rparr>]\<rparr>) \<and>
   filter (resolves [ShopA, ShopB]) [''ShopA'', ''Nowhere'', ''ShopB''] = [''ShopA'', ''ShopB'']"
  by (simp add: fetched_state_eq update_def update_row_def update_shop_def put_variant_def
        failure_detail_def read_errors_def put_request_def variant_url_def shop_headers_def
        shop_result_def get_property_def numericVariantId_of_def with_numeric_id_simps
        example_row_def null_body_from_def ShopA_def ShopB_def resolves_def log_def now_def)

text \<open>
  C7. A failing call can fail the whole request. After \<^verbatim>\<open>SKU123\<close> has been fetched, an
  update with the rows \<^verbatim>\<open>SKU123\<close> and \<^verbatim>\<open>SKU999\<close> for ShopA and ShopB calls ShopA, which
  answers 500 with the body \<^verbatim>\<open>null\<close>. The failure is not turned into a result: building
  its message throws inside the \<^verbatim>\<open>catch\<close> block, ShopB is never called, the second row
  is never read, and the handler answers 500 \<^verbatim>\<open>Update failed\<close>.
\<close>

theorem update_fails_on_null_body:
  "update [ShopA, ShopB] (null_body_from ShopA)
     (Some \<lparr>updatedRows = Some [example_row, unfetched_row],
            selectedShops = Some [''ShopA'', ''ShopB'']\<rparr>)
     fetched_state =
   (\<lparr>status = 500,
     body = ErrorBody (JStr ''Update failed'')
              (Some ''Cannot read properties of null (reading 'errors')'')\<rparr>,
    \<lparr>memorySnapshot =
       \<lparr>own = [''SKU123'' \<mapsto> with_numeric_id example_variant ''1234567890''], proto = None\<rparr>,
     events =
       [Http (graphql_request ShopA ''SKU123''), SnapshotWrite ''SKU123'',
        SnapshotRead ''SKU123'',
        Http \<lparr>verb = PUT,
              url = ''https://a.example.com/admin/api/2023-04/variants/1234567890.json'',
              payload = JObj [(''variant'', JObj [(''price'', JStr ''25.99'')])],
              headers = [(''X-Shopify-Access-Token'', ''tokenA''),
                         (''Content-Type'', ''application/json'')]\<rparr>]\<rparr>)"
  by (simp add: fetched_state_eq update_def update_row_def update_shop_def put_variant_def
        failure_detail_def read_errors_def put_request_def variant_url_def shop_headers_def
        get_property_def numericVariantId_of_def with_numeric_id_simps
        example_row_def null_body_from_def ShopA_def ShopB_def log_def now_def)

text \<open>
  The same two requests in a runtime where ShopA's calls are answered 404 with an error
  body that is an object: the failure becomes ShopA's result and the later calls and
  rows go on.
\<close>

lemma update_contains_object_body_failure:
  "update [ShopA, ShopB] failing_ShopA
     (Some \<lparr>updatedRows = Some [example_row, unfetched_row],
            selectedShops = Some [''ShopA'', ''Nowhere'', ''ShopB'']\<rparr>)
     fetched_state =
   (\<lparr>status = 200,
     body = UpdateBody ''Update process completed.''
       [\<lparr>res_sku = ''SKU123'', res_rowNumber = JNum 1, res_shops = None,
         res_shop = Some ''ShopA'',
         res_message = ''Update failed: '' @ [CHR 0x22] @ ''Not Found'' @ [CHR 0x22]\<rparr>,
        \<lparr>res_sku = ''SKU123'', res_rowNumber = JNum 1, res_shops = None,
         res_shop = Some ''ShopB'', res_message = ''Update successful''\<rparr>,
        \<lparr>res_sku = ''SKU999'', res_rowNumber = JNum 2,
         res_shops = Some [''ShopA'', ''Nowhere'', ''ShopB''], res_shop = None,
         res_message = ''SKU not found in snapshot, skipping update.''\<rparr>]\<rparr>,
    fetched_state\<lparr>events := events fetched_state @
      [SnapshotRead ''SKU123'',
       Http (put_request ShopA ''1234567890'' (changes example_row)),
       Http (put_request ShopB ''1234567890'' (changes example_row)),
       SnapshotRead ''SKU999'']\<rparr>)"
  by (simp add: fetched_state_eq update_def update_row_def update_shop_def put_variant_def
        failure_detail_def read_errors_def put_request_def variant_url_def shop_headers_def
        shop_result_def skipped_def get_property_def numericVariantId_of_def
        with_numeric_id_simps Object_prototype_names_def
        example_row_def unfetched_row_def failing_ShopA_def ShopA_def ShopB_def log_def now_def)

section \<open>Properties of the first variant\<close>

lemma fetch_v1_run:
  "fetch_v1 q initial_state =
     (\<lparr>status = 200, body = FetchBody ''Fetch completed successfully.'' (JArr sampleData)\<rparr>,
      \<lparr>memorySnapshot = \<lparr>own = [''SKU123'' \<mapsto> hd sampleData], proto = None\<rparr>,
       events = [SnapshotReset, SnapshotWrite ''SKU123'']\<rparr>)"
  by (simp add: fetch_v1_def initial_state_def empty_object_def set_property_def log_def
        sampleData_def row_sku_def)

text \<open>
  C2. In the first variant a fetch without \<^verbatim>\<open>sku\<close>, in a fresh process, is answered 200
  with the sample data, and the Snapshot Store, empty before, holds \<^verbatim>\<open>SKU123\<close> afterwards.
  The second variant answers 400 and leaves the state alone (\<open>fetch_missing_sku\<close>).
\<close>

theorem fetch_v1_ignores_missing_sku:
  "fetch_v1 None initial_state =
     (\<lparr>status = 200, body = FetchBody ''Fetch completed successfully.'' (JArr sampleData)\<rparr>,
      \<lparr>memorySnapshot = \<lparr>own = [''SKU123'' \<mapsto> hd sampleData], proto = None\<rparr>,
       events = [SnapshotReset, SnapshotWrite ''SKU123'']\<rparr>) \<and>
   get_property json_props (memorySnapshot (snd (fetch_v1 None initial_state))) ''SKU123'' \<noteq>
     get_property json_props (memorySnapshot initial_state) ''SKU123''"
  by (simp add: fetch_v1_run)
     (simp add: initial_state_def empty_object_def get_property_def Object_prototype_names_def)

text \<open>
  C1. In the first variant, after a fetch, an update of \<^verbatim>\<open>SKU123\<close> for ShopB issues one
  call whose URL ends in the raw SKU, \<^verbatim>\<open>variants/SKU123.json\<close>. The second variant builds
  the URL from the entry's \<^verbatim>\<open>numericVariantId\<close> (\<open>update_calls_use_numeric_id\<close>).
\<close>

theorem update_v1_puts_sku_in_url:
  "filter is_http
     (events (snd (update_v1 [ShopA, ShopB] failing_ShopA
                     \<lparr>updatedRows = Some [example_row], selectedShops = Some [''ShopB'']\<rparr>
                     (snd (fetch_v1 None initial_state))))) =
     [Http \<lparr>verb = PUT,
            url = ''https://b.example.com/admin/api/2023-04/variants/SKU123.json'',
            payload = JObj [(''variant'', JObj [(''price'', JStr ''25.99'')])],
            headers = [(''X-Shopify-Access-Token'', ''tokenB''),
                       (''Content-Type'', ''application/json'')]\<rparr>]"
  by (simp add: fetch_v1_run update_v1_def update_row_v1_def update_shop_v1_def put_variant_def
        put_request_def variant_url_def shop_headers_def example_row_def ShopA_def ShopB_def
        failing_ShopA_def get_property_def log_def now_def is_http_def)

text \<open>
  C3. In the first variant an update whose body has no \<^verbatim>\<open>updatedRows\<close> is answered 500,
  and one whose body has no \<^verbatim>\<open>selectedShops\<close> reads the Snapshot Store for its first row
  and, that row's SKU having an entry, is answered 500 as well. The second variant
  answers 400 before any read or call (\<open>update_missing_fields\<close>).
\<close>

theorem update_v1_missing_fields_is_500:
  "update_v1 S rt \<lparr>updatedRows = None, selectedShops = sel\<rparr> st =
     (\<lparr>status = 500, body = ErrorBody (JStr ''Update failed.'') None\<rparr>, st) \<and>
   update_v1 [ShopA, ShopB] failing_ShopA \<lparr>updatedRows = Some [example_row], selectedShops = None\<rparr>
       (snd (fetch_v1 None initial_state)) =
     (\<lparr>status = 500, body = ErrorBody (JStr ''Update failed.'') None\<rparr>,
      \<lparr>memorySnapshot = \<lparr>own = [''SKU123'' \<mapsto> hd sampleData], proto = None\<rparr>,
       events = [SnapshotReset, SnapshotWrite ''SKU123'', SnapshotRead ''SKU123'']\<rparr>)"
  by (simp add: fetch_v1_run update_v1_def update_row_v1_def example_row_def get_property_def
        log_def)

end
